theory Spec2Isabelle
  imports Main "HOL-Library.Word" "HOL-Library.Signed_Division" "HOL-Library.Sublist"
begin

section \<open>Severity levels and the build configuration\<close>

text \<open>
  \<^verbatim>\<open>enum class LogLevel : uint8_t { Debug = 0, Info = 1, Warning = 2, Error = 3 }\<close>.
  The enumeration has a fixed underlying type, so every \<^verbatim>\<open>uint8_t\<close> value is a value
  of \<^verbatim>\<open>LogLevel\<close>; the four enumerators are four of them and comparison is the
  comparison of the underlying unsigned values.
\<close>

type_synonym LogLevel = "8 word"

definition Debug :: LogLevel where "Debug = 0"
definition Info :: LogLevel where "Info = 1"
definition Warning :: LogLevel where "Warning = 2"
definition Error :: LogLevel where "Error = 3"

definition logLevelToString :: "LogLevel \<Rightarrow> string" where
  "logLevelToString level =
     (if level = Debug then ''Debug''
      else if level = Info then ''Info''
      else if level = Warning then ''Warning''
      else if level = Error then ''Error''
      else ''Unknown'')"

text \<open>
  The compile-time constants of \<^verbatim>\<open>SimpleLoggerConfig\<close>. The source fixes them through
  the preprocessor (\<^verbatim>\<open>NDEBUG\<close>) and a literal; \<open>build_config\<close> gives the two
  configurations the header can be compiled in.
\<close>

record SimpleLoggerConfig =
  logLevel :: LogLevel
  timezoneAdjustment :: int

definition build_config :: "bool \<Rightarrow> SimpleLoggerConfig" where
  "build_config NDEBUG =
     \<lparr>logLevel = (if NDEBUG then Info else Debug), timezoneAdjustment = 0\<rparr>"

section \<open>Output streams\<close>

text \<open>
  The part of \<^verbatim>\<open>std::ostream\<close> the logger uses: whether the stream state is
  \<^verbatim>\<open>goodbit\<close>, the fill character, the field width, and the characters that have
  reached the stream's destination. The format flags the logger never touches stay
  at their defaults (decimal, padding on the left).
\<close>

record ostream =
  os_good :: bool
  os_fill :: char
  os_width :: nat
  os_out :: string

definition fresh_stream :: ostream where
  "fresh_stream = \<lparr>os_good = True, os_fill = CHR '' '', os_width = 0, os_out = []\<rparr>"

definition padded :: "ostream \<Rightarrow> string \<Rightarrow> string" where
  "padded s txt = replicate (os_width s - length txt) (os_fill s) @ txt"

text \<open>
  A formatted insertion: nothing is written unless the stream is good; a written
  field is padded to the width, which is then reset.
\<close>

definition insert_text :: "string \<Rightarrow> ostream \<Rightarrow> ostream" where
  "insert_text txt s =
     (if os_good s then s\<lparr>os_out := os_out s @ padded s txt, os_width := 0\<rparr> else s)"

definition digit_char :: "nat \<Rightarrow> char" where
  "digit_char d = ''0123456789'' ! d"

fun dec_digits :: "nat \<Rightarrow> string" where
  "dec_digits n =
     (if n < 10 then [digit_char n] else dec_digits (n div 10) @ [digit_char (n mod 10)])"

declare dec_digits.simps [simp del]

definition num_text :: "int \<Rightarrow> string" where
  "num_text k = (if k < 0 then CHR ''-'' # dec_digits (nat (- k)) else dec_digits (nat k))"

text \<open>
  The values the source streams with \<^verbatim>\<open><<\<close>: character strings, characters,
  integers, and the manipulators \<^verbatim>\<open>std::setfill\<close> and \<^verbatim>\<open>std::setw\<close>.
\<close>

datatype token = Str string | Chr char | Num int | SetFill char | SetW nat

fun put_token :: "token \<Rightarrow> ostream \<Rightarrow> ostream" where
  "put_token (Str txt) s = insert_text txt s"
| "put_token (Chr c) s = insert_text [c] s"
| "put_token (Num k) s = insert_text (num_text k) s"
| "put_token (SetFill c) s = s\<lparr>os_fill := c\<rparr>"
| "put_token (SetW n) s = s\<lparr>os_width := n\<rparr>"

text \<open>\<^verbatim>\<open>std::endl\<close>: an unformatted \<^verbatim>\<open>put('\n')\<close> and a flush.\<close>

definition endl :: "ostream \<Rightarrow> ostream" where
  "endl s = (if os_good s then s\<lparr>os_out := os_out s @ [CHR 10]\<rparr> else s)"

section \<open>The process state\<close>

text \<open>
  Streams are objects that the logger holds by reference, so they live in a store.
  \<open>LogFileRef\<close> is the static \<^verbatim>\<open>SimpleLoggerConfig::logFile\<close>, \<open>NullRef l\<close> the static
  \<^verbatim>\<open>null_stream\<close> of the instantiation \<^verbatim>\<open>SimpleLogger<l>\<close>, and \<open>CallerRef i\<close> a stream
  owned by the caller. The trace \<open>events\<close> records every attempt to open a file and
  every reading of the clock.
\<close>

datatype stream_ref = LogFileRef | NullRef LogLevel | CallerRef nat

datatype event = FileOpen string bool | ClockRead

record world =
  streams :: "stream_ref \<Rightarrow> ostream"
  logFile_open :: "string option"
  logFileName :: string
  files :: "string \<rightharpoonup> string"
  writable :: "string \<Rightarrow> bool"
  now :: int
  events :: "event list"

definition on_stream :: "stream_ref \<Rightarrow> (ostream \<Rightarrow> ostream) \<Rightarrow> world \<Rightarrow> world" where
  "on_stream r f w = w\<lparr>streams := (streams w)(r := f (streams w r))\<rparr>"

text \<open>
  What a file holds: the open log file holds what has been written through its
  handle since it was opened (and truncated); any other file holds what is on disk.
\<close>

definition file_content :: "world \<Rightarrow> string \<Rightarrow> string option" where
  "file_content w name =
     (if logFile_open w = Some name then Some (os_out (streams w LogFileRef)) else files w name)"

text \<open>
  The state at process start for a configuration: \<^verbatim>\<open>logFile\<close> is default-constructed
  (not open), every \<^verbatim>\<open>null_stream\<close> is constructed with a null buffer and is therefore
  in state \<^verbatim>\<open>badbit\<close>, and \<^verbatim>\<open>logFileName\<close> is
  \<^verbatim>\<open>logLevelToString(logLevel) + ".log"\<close>.
\<close>

definition null_ostream :: ostream where
  "null_ostream = fresh_stream\<lparr>os_good := False\<rparr>"

definition initial_streams :: "stream_ref \<Rightarrow> ostream" where
  "initial_streams r = (case r of NullRef l \<Rightarrow> null_ostream | _ \<Rightarrow> fresh_stream)"

definition initial_world ::
  "SimpleLoggerConfig \<Rightarrow> (string \<rightharpoonup> string) \<Rightarrow> (string \<Rightarrow> bool) \<Rightarrow> int \<Rightarrow> world" where
  "initial_world cfg disk perm t =
     \<lparr>streams = initial_streams, logFile_open = None,
      logFileName = logLevelToString (logLevel cfg) @ ''.log'',
      files = disk, writable = perm, now = t, events = []\<rparr>"

subsection \<open>\<^verbatim>\<open>SimpleLoggerConfig::getLogFile\<close>\<close>

definition is_open :: "world \<Rightarrow> bool" where
  "is_open w = (logFile_open w \<noteq> None)"

text \<open>
  \<^verbatim>\<open>logFile = std::ofstream(name)\<close>: the temporary opens the file for writing, which
  creates or truncates it, or sets \<^verbatim>\<open>failbit\<close> when the file cannot be opened; the
  move assignment gives \<^verbatim>\<open>logFile\<close> the temporary's state.
\<close>

definition assign_ofstream :: "string \<Rightarrow> world \<Rightarrow> world" where
  "assign_ofstream name w =
     (if writable w name
      then w\<lparr>streams := (streams w)(LogFileRef := fresh_stream),
             logFile_open := Some name,
             files := (files w)(name \<mapsto> []),
             events := events w @ [FileOpen name True]\<rparr>
      else w\<lparr>streams := (streams w)(LogFileRef := fresh_stream\<lparr>os_good := False\<rparr>),
             logFile_open := None,
             events := events w @ [FileOpen name False]\<rparr>)"

definition getLogFile :: "world \<Rightarrow> stream_ref \<times> world" where
  "getLogFile w =
     (let w' = (if \<not> is_open w then assign_ofstream (logFileName w) w else w)
      in (LogFileRef, w'))"


section \<open>\<^verbatim>\<open>SimpleLogger<Level>\<close>\<close>

record SimpleLogger =
  Level :: LogLevel
  m_stream :: stream_ref

record source_location =
  file_name :: string
  line :: nat
  function_name :: string

definition is_active :: "SimpleLoggerConfig \<Rightarrow> LogLevel \<Rightarrow> bool" where
  "is_active cfg level = (level \<ge> logLevel cfg)"

definition get_stream :: "SimpleLogger \<Rightarrow> stream_ref" where
  "get_stream this = m_stream this"

text \<open>\<^verbatim>\<open>operator<<\<close>: returns \<^verbatim>\<open>*this\<close>, so a chain threads the logger and the state.\<close>

definition operator_shl ::
  "SimpleLoggerConfig \<Rightarrow> token \<Rightarrow> SimpleLogger \<times> world \<Rightarrow> SimpleLogger \<times> world" where
  "operator_shl cfg tok st =
     (case st of (this, w) \<Rightarrow>
        if is_active cfg (Level this)
        then (this, on_stream (m_stream this) (put_token tok) w)
        else (this, w))"

text \<open>
  \<^verbatim>\<open>print_time\<close>. The clock counts nanoseconds; \<^verbatim>\<open>duration_cast\<close> and \<^verbatim>\<open>%\<close>
  truncate towards zero (\<open>sdiv\<close>, \<open>smod\<close>).
\<close>

definition hours_count :: "int \<Rightarrow> int" where
  "hours_count ns = ns sdiv 3600000000000"

definition minutes_count :: "int \<Rightarrow> int" where
  "minutes_count ns = ns sdiv 60000000000"

definition seconds_count :: "int \<Rightarrow> int" where
  "seconds_count ns = ns sdiv 1000000000"

definition milliseconds_count :: "int \<Rightarrow> int" where
  "milliseconds_count ns = ns sdiv 1000000"

definition print_time ::
  "SimpleLoggerConfig \<Rightarrow> SimpleLogger \<times> world \<Rightarrow> SimpleLogger \<times> world" where
  "print_time cfg st =
     (case st of (this, w0) \<Rightarrow>
        let w = w0\<lparr>events := events w0 @ [ClockRead]\<rparr>;
            time_since_epoch = now w;
            h = hours_count time_since_epoch smod 24 + timezoneAdjustment cfg;
            min = minutes_count time_since_epoch smod 60;
            s = seconds_count time_since_epoch smod 60;
            ms = milliseconds_count time_since_epoch smod 100
        in fold (operator_shl cfg)
             [SetFill CHR ''0'', SetW 2, Num h, Str '':'',
              SetFill CHR ''0'', SetW 2, Num min, Str '':'',
              SetFill CHR ''0'', SetW 2, Num s, Str ''.'',
              SetFill CHR ''0'', SetW 3, Num ms]
             (this, w))"

text \<open>
  \<^verbatim>\<open>strrchr\<close>: a pointer into a character string is the rest of the string from
  that position; \<open>None\<close> is the null pointer.
\<close>

fun strrchr :: "string \<Rightarrow> char \<Rightarrow> string option" where
  "strrchr [] c = None"
| "strrchr (x # xs) c =
     (case strrchr xs c of
        Some p \<Rightarrow> Some p
      | None \<Rightarrow> if x = c then Some (x # xs) else None)"

definition print_file_name ::
  "SimpleLoggerConfig \<Rightarrow> string \<Rightarrow> SimpleLogger \<times> world \<Rightarrow> SimpleLogger \<times> world" where
  "print_file_name cfg file_path st =
     (case strrchr file_path CHR ''/'' of
        Some slash_position \<Rightarrow> operator_shl cfg (Str (tl slash_position)) st
      | None \<Rightarrow> operator_shl cfg (Str file_path) st)"

text \<open>The constructor, with the call site as an explicit argument.\<close>

definition SimpleLogger_ctor ::
  "SimpleLoggerConfig \<Rightarrow> LogLevel \<Rightarrow> stream_ref \<Rightarrow> source_location \<Rightarrow> world
     \<Rightarrow> SimpleLogger \<times> world" where
  "SimpleLogger_ctor cfg level stream location w =
     (let this = \<lparr>Level = level,
                  m_stream = (if is_active cfg level then stream else NullRef level)\<rparr>
      in if is_active cfg level then
           (let st1 = operator_shl cfg (Str ''['') (this, w);
                st2 = print_time cfg st1;
                st3 = fold (operator_shl cfg)
                        [Str '']['', Str (logLevelToString level), Str '']['']  st2;
                st4 = print_file_name cfg (file_name location) st3;
                st5 = fold (operator_shl cfg)
                        [Str '':'', Num (int (line location)), Str '']''] st4
            in fold (operator_shl cfg)
                 [Str ''['', Str (function_name location), Str ''] ''] st5)
         else (this, w))"

definition SimpleLogger_dtor ::
  "SimpleLoggerConfig \<Rightarrow> SimpleLogger \<times> world \<Rightarrow> world" where
  "SimpleLogger_dtor cfg st =
     (case st of (this, w) \<Rightarrow>
        if is_active cfg (Level this) then on_stream (m_stream this) endl w else w)"

text \<open>
  One log statement on a given stream,
  \<^verbatim>\<open>SimpleLogger<level>(stream) << t1 << ... << tn;\<close> : construction, the appends in
  order, destruction at the end of the full expression.
\<close>

definition log_statement ::
  "SimpleLoggerConfig \<Rightarrow> LogLevel \<Rightarrow> stream_ref \<Rightarrow> source_location \<Rightarrow> token list
     \<Rightarrow> world \<Rightarrow> world" where
  "log_statement cfg level stream location tokens w =
     SimpleLogger_dtor cfg
       (fold (operator_shl cfg) tokens (SimpleLogger_ctor cfg level stream location w))"

text \<open>
  The macros \<^verbatim>\<open>LOG_DEBUG\<close>, \<^verbatim>\<open>LOG_INFO\<close>, \<^verbatim>\<open>LOG_WARNING\<close>, \<^verbatim>\<open>LOG_ERROR\<close> expand to
  \<^verbatim>\<open>SimpleLogger<level>(SimpleLoggerConfig::getLogFile())\<close>: the argument is evaluated
  before the constructor runs.
\<close>

definition LOG ::
  "SimpleLoggerConfig \<Rightarrow> LogLevel \<Rightarrow> source_location \<Rightarrow> token list \<Rightarrow> world \<Rightarrow> world" where
  "LOG cfg level location tokens w =
     (case getLogFile w of (stream, w1) \<Rightarrow> log_statement cfg level stream location tokens w1)"

section \<open>The text of a log line\<close>

text \<open>
  The specification's description of the output, to be compared with what the
  operations above write: a number in a zero-filled field, the time as
  \<open>HH:MM:SS.mmm\<close>, the last component of a path, and the preamble of a line.
\<close>

definition zero_padded :: "nat \<Rightarrow> int \<Rightarrow> string" where
  "zero_padded n k = replicate (n - length (num_text k)) CHR ''0'' @ num_text k"

definition time_text :: "SimpleLoggerConfig \<Rightarrow> int \<Rightarrow> string" where
  "time_text cfg t =
     zero_padded 2 (hours_count t smod 24 + timezoneAdjustment cfg) @ '':'' @
     zero_padded 2 (minutes_count t smod 60) @ '':'' @
     zero_padded 2 (seconds_count t smod 60) @ ''.'' @
     zero_padded 3 (milliseconds_count t smod 100)"

definition last_component :: "string \<Rightarrow> string" where
  "last_component path = rev (takeWhile (\<lambda>c. c \<noteq> CHR ''/'') (rev path))"

definition preamble_text ::
  "SimpleLoggerConfig \<Rightarrow> LogLevel \<Rightarrow> source_location \<Rightarrow> int \<Rightarrow> string" where
  "preamble_text cfg level location t =
     ''['' @ time_text cfg t @ '']['' @ logLevelToString level @ '']['' @
     last_component (file_name location) @ '':'' @ num_text (int (line location)) @
     '']['' @ function_name location @ ''] ''"

text \<open>The tokens that \<^verbatim>\<open>print_time\<close> and the constructor stream, in order.\<close>

definition time_tokens :: "SimpleLoggerConfig \<Rightarrow> int \<Rightarrow> token list" where
  "time_tokens cfg t =
     [SetFill CHR ''0'', SetW 2, Num (hours_count t smod 24 + timezoneAdjustment cfg), Str '':'',
      SetFill CHR ''0'', SetW 2, Num (minutes_count t smod 60), Str '':'',
      SetFill CHR ''0'', SetW 2, Num (seconds_count t smod 60), Str ''.'',
      SetFill CHR ''0'', SetW 3, Num (milliseconds_count t smod 100)]"

definition preamble_tokens ::
  "SimpleLoggerConfig \<Rightarrow> LogLevel \<Rightarrow> source_location \<Rightarrow> int \<Rightarrow> token list" where
  "preamble_tokens cfg level location t =
     Str ''['' # time_tokens cfg t @
     [Str '']['', Str (logLevelToString level), Str '']['',
      Str (last_component (file_name location)),
      Str '':'', Num (int (line location)), Str '']'',
      Str ''['', Str (function_name location), Str ''] '']"

text \<open>
  A token that cannot put a line terminator into the output, and a stream that has
  grown from another by characters other than the line terminator.
\<close>

fun plain_token :: "token \<Rightarrow> bool" where
  "plain_token (Str txt) = (CHR 10 \<notin> set txt)"
| "plain_token (Chr c) = (c \<noteq> CHR 10)"
| "plain_token (Num k) = True"
| "plain_token (SetFill c) = (c \<noteq> CHR 10)"
| "plain_token (SetW n) = True"

definition extends_plain :: "ostream \<Rightarrow> ostream \<Rightarrow> bool" where
  "extends_plain s s' =
     (os_good s' \<and> os_fill s' \<noteq> CHR 10 \<and> (\<exists>x. os_out s' = os_out s @ x \<and> CHR 10 \<notin> set x))"

text \<open>Example surroundings: file permissions and a call site.\<close>

definition allow_all :: "string \<Rightarrow> bool" where "allow_all name = True"

definition deny_all :: "string \<Rightarrow> bool" where "deny_all name = False"

definition call_site :: source_location where
  "call_site = \<lparr>file_name = ''/src/app/main.cpp'', line = 42, function_name = ''int main()''\<rparr>"

text \<open>No \<^verbatim>\<open>null_stream\<close> is in good state.\<close>

definition null_streams_bad :: "world \<Rightarrow> bool" where
  "null_streams_bad w = (\<forall>l. \<not> os_good (streams w (NullRef l)))"

section \<open>Path trimming\<close>

lemma strrchr_None: "strrchr xs c = None \<longleftrightarrow> c \<notin> set xs"
  by (induction xs) (auto split: option.splits)

lemma strrchr_last:
  "c \<notin> set b \<Longrightarrow> strrchr (a @ c # b) c = Some (c # b)"
proof (induction a)
  case Nil
  then have "strrchr b c = None" by (simp add: strrchr_None)
  then show ?case by simp
next
  case (Cons x a)
  then show ?case by simp
qed

lemma last_component_no_sep: "CHR ''/'' \<notin> set p \<Longrightarrow> last_component p = p"
proof -
  assume "CHR ''/'' \<notin> set p"
  then have "takeWhile (\<lambda>c. c \<noteq> CHR ''/'') (rev p) = rev p"
    by (intro takeWhile_eq_all_conv [THEN iffD2]) auto
  then show ?thesis unfolding last_component_def by (simp only: rev_rev_ident)
qed

lemma last_component_sep:
  "CHR ''/'' \<notin> set b \<Longrightarrow> last_component (a @ CHR ''/'' # b) = b"
proof -
  assume h: "CHR ''/'' \<notin> set b"
  have "takeWhile (\<lambda>c. c \<noteq> CHR ''/'') (rev b @ CHR ''/'' # rev a) = rev b"
    using h by (intro takeWhile_tail [THEN trans]) auto
  then show ?thesis by (simp add: last_component_def)
qed

lemma split_last_sep:
  "CHR ''/'' \<in> set p \<Longrightarrow> \<exists>a b. p = a @ CHR ''/'' # b \<and> CHR ''/'' \<notin> set b"
  by (metis split_list_last)

lemma print_file_name_eq:
  "print_file_name cfg p st = operator_shl cfg (Str (last_component p)) st"
proof (cases "CHR ''/'' \<in> set p")
  case True
  then obtain a b where p: "p = a @ CHR ''/'' # b" and b: "CHR ''/'' \<notin> set b"
    using split_last_sep by blast
  show ?thesis
    by (simp add: print_file_name_def p strrchr_last [OF b] last_component_sep [OF b])
next
  case False
  then have "strrchr p CHR ''/'' = None" by (simp add: strrchr_None)
  with False show ?thesis
    by (simp add: print_file_name_def last_component_no_sep)
qed

lemma last_component_subset: "set (last_component p) \<subseteq> set p"
proof -
  have "set (takeWhile (\<lambda>c. c \<noteq> CHR ''/'') (rev p)) \<subseteq> set (rev p)"
    by (rule set_takeWhileD [THEN conjunct1, THEN subsetI]) 
  then show ?thesis by (simp add: last_component_def)
qed

section \<open>Properties of the stream operations\<close>

lemma put_token_good: "os_good (put_token t s) = os_good s"
  by (cases t) (simp_all add: insert_text_def)

lemma put_token_bad_out: "\<not> os_good s \<Longrightarrow> os_out (put_token t s) = os_out s"
  by (cases t) (simp_all add: insert_text_def)

lemma fold_put_token_good: "os_good (fold put_token ts s) = os_good s"
  by (induction ts arbitrary: s) (simp_all add: put_token_good)

lemma fold_put_token_bad_out: "\<not> os_good s \<Longrightarrow> os_out (fold put_token ts s) = os_out s"
  by (induction ts arbitrary: s) (simp_all add: put_token_bad_out put_token_good)

lemma endl_bad_out: "\<not> os_good s \<Longrightarrow> os_out (endl s) = os_out s"
  by (simp add: endl_def)

lemma digit_char_set: "d < 10 \<Longrightarrow> digit_char d \<in> set ''0123456789''"
  unfolding digit_char_def by (rule nth_mem) simp

lemma dec_digits_set: "set (dec_digits n) \<subseteq> set ''0123456789''"
proof (induction n rule: dec_digits.induct)
  case (1 n)
  show ?case
  proof (cases "n < 10")
    case True
    then show ?thesis
      using digit_char_set [of n] by (subst dec_digits.simps) simp
  next
    case False
    have "n mod 10 < 10" by simp
    then have "digit_char (n mod 10) \<in> set ''0123456789''" by (rule digit_char_set)
    with False "1.IH" show ?thesis
      by (subst dec_digits.simps) simp
  qed
qed

lemma num_text_no_newline: "CHR 10 \<notin> set (num_text k)"
proof -
  have "CHR 10 \<notin> set ''0123456789''" by simp
  then have "CHR 10 \<notin> set (dec_digits n)" for n
    using dec_digits_set [of n] by blast
  then show ?thesis by (simp add: num_text_def)
qed

lemma logLevelToString_no_newline: "CHR 10 \<notin> set (logLevelToString level)"
  by (simp add: logLevelToString_def)

lemma extends_plain_refl: "os_good s \<Longrightarrow> os_fill s \<noteq> CHR 10 \<Longrightarrow> extends_plain s s"
  by (simp add: extends_plain_def)

lemma extends_plain_trans:
  "extends_plain s s' \<Longrightarrow> extends_plain s' s'' \<Longrightarrow> extends_plain s s''"
  by (auto simp: extends_plain_def)

lemma insert_text_plain:
  "os_good s \<Longrightarrow> os_fill s \<noteq> CHR 10 \<Longrightarrow> CHR 10 \<notin> set txt \<Longrightarrow> extends_plain s (insert_text txt s)"
  by (auto simp: extends_plain_def insert_text_def padded_def)

lemma put_token_plain:
  "os_good s \<Longrightarrow> os_fill s \<noteq> CHR 10 \<Longrightarrow> plain_token t \<Longrightarrow> extends_plain s (put_token t s)"
  by (cases t) (simp_all add: insert_text_plain num_text_no_newline, simp_all add: extends_plain_def)

lemma fold_put_token_plain:
  "os_good s \<Longrightarrow> os_fill s \<noteq> CHR 10 \<Longrightarrow> \<forall>t\<in>set ts. plain_token t \<Longrightarrow>
     extends_plain s (fold put_token ts s)"
proof (induction ts arbitrary: s)
  case Nil
  then show ?case by (simp add: extends_plain_refl)
next
  case (Cons t ts)
  have step: "extends_plain s (put_token t s)"
    using Cons.prems by (simp add: put_token_plain)
  then have "extends_plain (put_token t s) (fold put_token ts (put_token t s))"
    using Cons.prems by (intro Cons.IH) (simp_all add: extends_plain_def)
  with step show ?case
    by (simp add: extends_plain_trans)
qed

lemma replicate_small:
  "replicate 1 c = [c]" "replicate 2 c = [c, c]" "replicate 3 c = [c, c, c]"
  by (simp_all add: numeral_2_eq_2 numeral_3_eq_3)

lemma fold_time_tokens:
  "os_good s \<Longrightarrow>
     fold put_token (time_tokens cfg t) s =
       s\<lparr>os_fill := CHR ''0'', os_width := 0, os_out := os_out s @ time_text cfg t\<rparr>"
  by (simp add: time_tokens_def time_text_def zero_padded_def insert_text_def padded_def)

lemma fold_preamble_tokens:
  assumes "os_good s" "os_width s = 0"
  shows "fold put_token (preamble_tokens cfg level loc t) s =
       s\<lparr>os_fill := CHR ''0'', os_width := 0,
         os_out := os_out s @ preamble_text cfg level loc t\<rparr>"
proof -
  let ?s1 = "put_token (Str ''['') s"
  have s1: "?s1 = s\<lparr>os_out := os_out s @ ''[''\<rparr>"
    using assms by (simp add: insert_text_def padded_def)
  have g1: "os_good ?s1" using assms by (simp add: insert_text_def)
  show ?thesis
    unfolding preamble_tokens_def fold_Cons_rev fold_append comp_def fold.simps
    apply (simp only: fold_time_tokens [OF g1])
    apply (simp add: s1 assms insert_text_def padded_def preamble_text_def)
    done
qed

lemma preamble_tokens_plain:
  assumes "CHR 10 \<notin> set (file_name loc)" "CHR 10 \<notin> set (function_name loc)"
  shows "\<forall>tok\<in>set (preamble_tokens cfg level loc t). plain_token tok"
proof -
  have "CHR 10 \<notin> set (last_component (file_name loc))"
    using assms(1) last_component_subset by blast
  then show ?thesis
    using assms(2) by (simp add: preamble_tokens_def time_tokens_def logLevelToString_no_newline)
qed

section \<open>Properties of the logger operations\<close>

lemma on_stream_fields:
  "streams (on_stream r f w) = (streams w)(r := f (streams w r))"
  "logFile_open (on_stream r f w) = logFile_open w"
  "logFileName (on_stream r f w) = logFileName w"
  "files (on_stream r f w) = files w"
  "writable (on_stream r f w) = writable w"
  "now (on_stream r f w) = now w"
  "events (on_stream r f w) = events w"
  by (simp_all add: on_stream_def)

lemma on_stream_twice: "on_stream r f (on_stream r g w) = on_stream r (\<lambda>s. f (g s)) w"
  by (simp add: on_stream_def)

lemma initial_fields:
  "streams (initial_world cfg disk perm t) = initial_streams"
  "logFile_open (initial_world cfg disk perm t) = None"
  "logFileName (initial_world cfg disk perm t) = logLevelToString (logLevel cfg) @ ''.log''"
  "files (initial_world cfg disk perm t) = disk"
  "writable (initial_world cfg disk perm t) = perm"
  "now (initial_world cfg disk perm t) = t"
  "events (initial_world cfg disk perm t) = []"
  by (simp_all add: initial_world_def)

lemma fold_operator_shl_active:
  "is_active cfg (Level this) \<Longrightarrow>
     fold (operator_shl cfg) ts (this, w) = (this, on_stream (m_stream this) (fold put_token ts) w)"
proof (induction ts arbitrary: w)
  case Nil
  then show ?case by (simp add: on_stream_def)
next
  case (Cons t ts)
  then show ?case
    by (simp add: operator_shl_def on_stream_twice)
qed

lemma fold_operator_shl_inactive:
  "\<not> is_active cfg (Level this) \<Longrightarrow> fold (operator_shl cfg) ts (this, w) = (this, w)"
  by (induction ts) (simp_all add: operator_shl_def)

lemma print_time_active:
  "is_active cfg (Level this) \<Longrightarrow>
     print_time cfg (this, w) =
       (this, on_stream (m_stream this) (fold put_token (time_tokens cfg (now w)))
                (w\<lparr>events := events w @ [ClockRead]\<rparr>))"
  unfolding print_time_def Let_def time_tokens_def prod.case
  by (subst fold_operator_shl_active) (simp_all del: fold.simps)

lemma SimpleLogger_ctor_inactive:
  "\<not> is_active cfg level \<Longrightarrow>
     SimpleLogger_ctor cfg level r loc w = (\<lparr>Level = level, m_stream = NullRef level\<rparr>, w)"
  by (simp add: SimpleLogger_ctor_def)

lemma SimpleLogger_ctor_active:
  assumes "is_active cfg level"
  shows "SimpleLogger_ctor cfg level r loc w =
       (\<lparr>Level = level, m_stream = r\<rparr>,
        on_stream r (fold put_token (preamble_tokens cfg level loc (now w)))
          (w\<lparr>events := events w @ [ClockRead]\<rparr>))"
proof -
  let ?lg = "\<lparr>Level = level, m_stream = r\<rparr>"
  have a: "is_active cfg (Level ?lg)" using assms by simp
  have s1: "operator_shl cfg (Str ''['') (?lg, w) = (?lg, on_stream r (put_token (Str ''['')) w)"
    using a by (simp add: operator_shl_def)
  show ?thesis
    unfolding SimpleLogger_ctor_def Let_def
    apply (simp only: assms if_True s1 print_time_active [OF a] print_file_name_eq
        fold_operator_shl_active [OF a] on_stream_fields)
    apply (simp add: operator_shl_def assms on_stream_def preamble_tokens_def)
    done
qed

lemma log_statement_inactive:
  "\<not> is_active cfg level \<Longrightarrow> log_statement cfg level r loc ts w = w"
  by (simp add: log_statement_def SimpleLogger_ctor_inactive fold_operator_shl_inactive
      SimpleLogger_dtor_def)

lemma log_statement_active:
  assumes "is_active cfg level"
  shows "log_statement cfg level r loc ts w =
       on_stream r
         (\<lambda>s. endl (fold put_token ts (fold put_token (preamble_tokens cfg level loc (now w)) s)))
         (w\<lparr>events := events w @ [ClockRead]\<rparr>)"
proof -
  have a: "is_active cfg (Level \<lparr>Level = level, m_stream = r\<rparr>)" using assms by simp
  show ?thesis
    unfolding log_statement_def SimpleLogger_ctor_active [OF assms]
      fold_operator_shl_active [OF a] SimpleLogger_dtor_def
    by (simp add: assms on_stream_twice del: fold.simps)
qed




lemma LOG_inactive:
  "\<not> is_active cfg level \<Longrightarrow> LOG cfg level loc toks w = snd (getLogFile w)"
  by (simp add: LOG_def log_statement_inactive split: prod.splits)

lemma LOG_active:
  "is_active cfg level \<Longrightarrow>
     LOG cfg level loc toks w =
       (let w1 = snd (getLogFile w)
        in on_stream LogFileRef
             (\<lambda>s. endl (fold put_token toks
                     (fold put_token (preamble_tokens cfg level loc (now w1)) s)))
             (w1\<lparr>events := events w1 @ [ClockRead]\<rparr>))"
  by (simp add: LOG_def log_statement_active getLogFile_def Let_def del: fold.simps)


lemma fst_operator_shl: "fst (operator_shl cfg tok st) = fst st"
  by (simp add: operator_shl_def split: prod.splits)

lemma fst_fold_operator_shl: "fst (fold (operator_shl cfg) toks st) = fst st"
  by (induction toks arbitrary: st) (simp_all add: fst_operator_shl)



text \<open>
  Every \<^verbatim>\<open>null_stream\<close> starts in state \<^verbatim>\<open>badbit\<close> and no operation of the
  logger brings one back to good state.
\<close>

lemma endl_good: "os_good (endl s) = os_good s"
  by (simp add: endl_def)

lemma null_streams_bad_initial: "null_streams_bad (initial_world cfg disk perm t)"
  by (simp add: null_streams_bad_def initial_fields initial_streams_def null_ostream_def)

lemma null_streams_bad_getLogFile:
  "null_streams_bad w \<Longrightarrow> null_streams_bad (snd (getLogFile w))"
  by (simp add: null_streams_bad_def getLogFile_def assign_ofstream_def)

lemma null_streams_bad_log_statement:
  "null_streams_bad w \<Longrightarrow> null_streams_bad (log_statement cfg level r loc toks w)"
proof (cases "is_active cfg level")
  case True
  assume "null_streams_bad w"
  then show ?thesis
    unfolding log_statement_active [OF True]
    by (auto simp add: null_streams_bad_def on_stream_fields endl_good fold_put_token_good
        simp del: fold.simps)
next
  case False
  assume "null_streams_bad w"
  then show ?thesis by (simp add: log_statement_inactive [OF False])
qed

lemma null_streams_bad_LOG:
  "null_streams_bad w \<Longrightarrow> null_streams_bad (LOG cfg level loc toks w)"
  using null_streams_bad_log_statement [OF null_streams_bad_getLogFile]
  by (simp add: LOG_def split: prod.splits) (metis snd_conv)

section \<open>The label of a severity\<close>

text \<open>
  C7. The label mapping is total and pure: the four enumerators map to their names
  and every other value of the type maps to \<open>''Unknown''\<close>.
\<close>

theorem logLevelToString_total:
  "logLevelToString Debug = ''Debug'' \<and> logLevelToString Info = ''Info'' \<and>
   logLevelToString Warning = ''Warning'' \<and> logLevelToString Error = ''Error'' \<and>
   (level \<notin> {Debug, Info, Warning, Error} \<longrightarrow> logLevelToString level = ''Unknown'')"
  by (simp add: logLevelToString_def Debug_def Info_def Warning_def Error_def)

theorem logLevelToString_total_witness:
  "logLevelToString Debug = ''Debug'' \<and> logLevelToString Info = ''Info'' \<and>
   logLevelToString Warning = ''Warning'' \<and> logLevelToString Error = ''Error'' \<and>
   (200 :: LogLevel) \<notin> {Debug, Info, Warning, Error} \<and> logLevelToString 200 = ''Unknown''"
  using logLevelToString_total [of 200]
  by (simp add: Debug_def Info_def Warning_def Error_def)

section \<open>Statements below the threshold\<close>

text \<open>
  C1, as the code has it. A statement whose severity is below the threshold leaves
  the whole process state as it was when it is constructed on a given stream: no
  clock reading, no file, no byte on any stream, whatever is appended. Issued through
  a \<^verbatim>\<open>LOG_...\<close> macro, its whole effect is that of the call of \<^verbatim>\<open>getLogFile\<close> in the
  macro's argument: no clock reading and no byte written, but one attempt to open the
  log file when the file is not open yet.
\<close>

theorem inactive_statement:
  assumes "\<not> is_active cfg level"
  shows "log_statement cfg level r loc toks w = w \<and>
     LOG cfg level loc toks w = snd (getLogFile w) \<and>
     events (LOG cfg level loc toks w) =
       events w @ (if is_open w then []
                   else [FileOpen (logFileName w) (writable w (logFileName w))]) \<and>
     os_out (streams (LOG cfg level loc toks w) LogFileRef) =
       (if is_open w then os_out (streams w LogFileRef) else [])"
  unfolding LOG_inactive [OF assms]
  by (simp add: log_statement_inactive [OF assms] getLogFile_def assign_ofstream_def
      fresh_stream_def)

theorem inactive_statement_witness:
  "\<not> is_active (build_config True) Debug \<and>
   log_statement (build_config True) Debug (CallerRef 0) call_site [Str ''x'']
       (initial_world (build_config True) Map.empty allow_all 0) =
     initial_world (build_config True) Map.empty allow_all 0 \<and>
   events (LOG (build_config True) Debug call_site [Str ''x'']
       (initial_world (build_config True) Map.empty allow_all 0)) = [FileOpen ''Info.log'' True]"
  using inactive_statement [of "build_config True" Debug "CallerRef 0" call_site "[Str ''x'']"
      "initial_world (build_config True) Map.empty allow_all 0"]
  by (simp add: is_active_def build_config_def Debug_def Info_def initial_world_def is_open_def
      allow_all_def logLevelToString_def getLogFile_def assign_ofstream_def)

text \<open>
  With threshold \<open>Info\<close>, a first \<^verbatim>\<open>LOG_DEBUG << "x";\<close> creates \<^verbatim>\<open>Info.log\<close>, and
  truncates it when it exists.
\<close>

theorem LOG_DEBUG_opens_file:
  "Debug < logLevel (build_config True) \<and>
   file_content (initial_world (build_config True) Map.empty allow_all 0) ''Info.log'' = None \<and>
   file_content (LOG (build_config True) Debug call_site [Str ''x'']
       (initial_world (build_config True) Map.empty allow_all 0)) ''Info.log'' = Some [] \<and>
   events (LOG (build_config True) Debug call_site [Str ''x'']
       (initial_world (build_config True) Map.empty allow_all 0)) = [FileOpen ''Info.log'' True] \<and>
   file_content (initial_world (build_config True) [''Info.log'' \<mapsto> ''earlier run''] allow_all 0)
       ''Info.log'' = Some ''earlier run'' \<and>
   file_content (LOG (build_config True) Debug call_site [Str ''x'']
       (initial_world (build_config True) [''Info.log'' \<mapsto> ''earlier run''] allow_all 0))
       ''Info.log'' = Some []"
proof -
  have i: "\<not> is_active (build_config True) Debug"
    by (simp add: is_active_def build_config_def Debug_def Info_def)
  show ?thesis
    unfolding LOG_inactive [OF i]
    by (simp add: getLogFile_def is_open_def
        initial_world_def assign_ofstream_def file_content_def allow_all_def fresh_stream_def
        build_config_def Debug_def Info_def logLevelToString_def)
qed

section \<open>Statements at or above the threshold\<close>

text \<open>
  C2, as the code has it. A statement at or above the threshold, on a stream in good
  state whose fill character is not the line terminator, with tokens and call-site
  strings free of line terminators, appends exactly one line to the stream: a text
  without line terminator followed by the one terminator the destructor writes, for
  any number of tokens.
\<close>

theorem statement_one_line:
  assumes "is_active cfg level"
    and "os_good (streams w r)" and "os_fill (streams w r) \<noteq> CHR 10"
    and "\<forall>tok\<in>set tokens. plain_token tok"
    and "CHR 10 \<notin> set (file_name loc)" and "CHR 10 \<notin> set (function_name loc)"
  shows "\<exists>ln. CHR 10 \<notin> set ln \<and>
     os_out (streams (log_statement cfg level r loc tokens w) r) =
       os_out (streams w r) @ ln @ [CHR 10]"
proof -
  let ?s = "streams w r"
  let ?s2 = "fold put_token (preamble_tokens cfg level loc (now w) @ tokens) ?s"
  have "\<forall>tok\<in>set (preamble_tokens cfg level loc (now w) @ tokens). plain_token tok"
    using preamble_tokens_plain [OF assms(5,6)] assms(4) by auto
  then have "extends_plain ?s ?s2"
    using assms(2,3) by (rule fold_put_token_plain [rotated 2])
  then obtain ln where g: "os_good ?s2" and o: "os_out ?s2 = os_out ?s @ ln"
    and n: "CHR 10 \<notin> set ln"
    by (auto simp: extends_plain_def)
  have "streams (log_statement cfg level r loc tokens w) r = endl ?s2"
    by (simp add: log_statement_active [OF assms(1)] on_stream_fields del: fold.simps)
  then have "os_out (streams (log_statement cfg level r loc tokens w) r) =
      os_out ?s @ ln @ [CHR 10]"
    using g o by (simp add: endl_def)
  with n show ?thesis by blast
qed

theorem statement_one_line_witness:
  "is_active (build_config False) Error \<and>
   (\<exists>ln. CHR 10 \<notin> set ln \<and>
     os_out (streams (log_statement (build_config False) Error (CallerRef 0) call_site
        [Str ''code '', Num 7] (initial_world (build_config False) Map.empty allow_all 0))
        (CallerRef 0)) = ln @ [CHR 10])"
proof -
  have a: "is_active (build_config False) Error"
    by (simp add: is_active_def build_config_def Debug_def)
  have "\<exists>ln. CHR 10 \<notin> set ln \<and>
     os_out (streams (log_statement (build_config False) Error (CallerRef 0) call_site
        [Str ''code '', Num 7] (initial_world (build_config False) Map.empty allow_all 0))
        (CallerRef 0)) =
     os_out (streams (initial_world (build_config False) Map.empty allow_all 0) (CallerRef 0))
       @ ln @ [CHR 10]"
    by (rule statement_one_line [OF a])
      (simp_all add: initial_fields initial_streams_def fresh_stream_def call_site_def)
  then show ?thesis
    using a by (simp add: initial_fields initial_streams_def fresh_stream_def)
qed

text \<open>
  A token that contains a line terminator gives two lines, and a statement on a log
  file that could not be opened writes nothing.
\<close>

theorem two_lines_or_none:
  "is_active (build_config False) Info \<and>
   os_out (streams (log_statement (build_config False) Info (CallerRef 0) call_site
        [Str (''a'' @ [CHR 10] @ ''b'')] (initial_world (build_config False) Map.empty allow_all 0))
        (CallerRef 0)) =
     ''[00:00:00.000][Info][main.cpp:42][int main()] a'' @ [CHR 10] @ ''b'' @ [CHR 10] \<and>
   file_content (LOG (build_config False) Info call_site [Str ''x'']
        (initial_world (build_config False) Map.empty deny_all 0)) ''Debug.log'' = None \<and>
   os_out (streams (LOG (build_config False) Info call_site [Str ''x'']
        (initial_world (build_config False) Map.empty deny_all 0)) LogFileRef) = []"
proof -
  have a: "is_active (build_config False) Info"
    by (simp add: is_active_def build_config_def Debug_def)
  have z: "(0::int) sdiv k = 0" "(0::int) smod k = 0" for k
    by (simp_all add: signed_modulo_int_def)
  have p: "preamble_text (build_config False) Info call_site 0 =
      ''[00:00:00.000][Info][main.cpp:42][int main()] ''"
    by (simp add: preamble_text_def time_text_def zero_padded_def hours_count_def
        minutes_count_def seconds_count_def milliseconds_count_def z num_text_def
        dec_digits.simps digit_char_def build_config_def logLevelToString_def
        Debug_def Info_def call_site_def last_component_def replicate_small)
  have 1: "os_out (streams (log_statement (build_config False) Info (CallerRef 0) call_site
        [Str (''a'' @ [CHR 10] @ ''b'')] (initial_world (build_config False) Map.empty allow_all 0))
        (CallerRef 0)) =
     ''[00:00:00.000][Info][main.cpp:42][int main()] a'' @ [CHR 10] @ ''b'' @ [CHR 10]"
    unfolding log_statement_active [OF a]
    apply (simp add: on_stream_fields initial_fields initial_streams_def fresh_stream_def
        fold_preamble_tokens p del: fold.simps)
    apply (simp add: insert_text_def padded_def endl_def)
    done
  have n: "now (snd (getLogFile w)) = now w" for w
    by (simp add: getLogFile_def assign_ofstream_def)
  show ?thesis
    unfolding LOG_active [OF a] Let_def n using a 1
    by (simp add: file_content_def on_stream_fields getLogFile_def is_open_def
        assign_ofstream_def deny_all_def initial_fields endl_bad_out fold_put_token_bad_out
        fold_put_token_good fresh_stream_def del: fold.simps)
qed

section \<open>End to end\<close>



section \<open>The shared log file\<close>




section \<open>The time stamp\<close>

text \<open>
  C5. On an active statement with a good stream, \<^verbatim>\<open>print_time\<close> appends the four
  fields: the millisecond field is the millisecond count modulo 100 in a zero-filled
  field of width 3, and the hour field is the hour count modulo 24 plus the timezone
  adjustment, a plain sum that is not reduced modulo 24.
\<close>

theorem print_time_fields:
  assumes "is_active cfg (Level this)" and "os_good (streams w (m_stream this))"
  shows "os_out (streams (snd (print_time cfg (this, w))) (m_stream this)) =
     os_out (streams w (m_stream this)) @
       zero_padded 2 (hours_count (now w) smod 24 + timezoneAdjustment cfg) @ '':'' @
       zero_padded 2 (minutes_count (now w) smod 60) @ '':'' @
       zero_padded 2 (seconds_count (now w) smod 60) @ ''.'' @
       zero_padded 3 (milliseconds_count (now w) smod 100)"
  unfolding print_time_active [OF assms(1)]
  by (simp add: on_stream_fields fold_time_tokens [OF assms(2)] time_text_def del: fold.simps)

theorem print_time_fields_witness:
  "is_active (build_config False\<lparr>timezoneAdjustment := 5\<rparr>) Info \<and>
   os_good (streams (initial_world (build_config False) Map.empty allow_all 86399987654321)
       (CallerRef 0)) \<and>
   milliseconds_count 86399987654321 = 86399987 \<and> hours_count 86399987654321 = 23 \<and>
   os_out (streams (snd (print_time (build_config False\<lparr>timezoneAdjustment := 5\<rparr>)
       (\<lparr>Level = Info, m_stream = CallerRef 0\<rparr>,
        initial_world (build_config False) Map.empty allow_all 86399987654321))) (CallerRef 0)) =
     ''28:59:59.087''"
  using print_time_fields [of "build_config False\<lparr>timezoneAdjustment := 5\<rparr>"
      "\<lparr>Level = Info, m_stream = CallerRef 0\<rparr>"
      "initial_world (build_config False) Map.empty allow_all 86399987654321"]
  by (simp add: is_active_def build_config_def Debug_def Info_def initial_fields
      initial_streams_def fresh_stream_def zero_padded_def hours_count_def minutes_count_def
      seconds_count_def milliseconds_count_def signed_divide_int_def signed_modulo_int_def
      num_text_def dec_digits.simps digit_char_def replicate_small)

section \<open>Activation\<close>

text \<open>
  C6. A statement is active exactly when its level is at least the threshold; the
  constructor fixes the level, no append changes the statement, and on an inactive
  statement construction, append and destruction leave the state unchanged.
\<close>

theorem activation_fixed:
  "(is_active cfg level \<longleftrightarrow> logLevel cfg \<le> level) \<and>
   Level (fst (SimpleLogger_ctor cfg level r loc w)) = level \<and>
   fst (fold (operator_shl cfg) toks (this, w)) = this \<and>
   (\<not> is_active cfg level \<longrightarrow> snd (SimpleLogger_ctor cfg level r loc w) = w) \<and>
   (\<not> is_active cfg (Level this) \<longrightarrow>
      operator_shl cfg tok (this, w) = (this, w) \<and> SimpleLogger_dtor cfg (this, w) = w)"
proof -
  have "Level (fst (SimpleLogger_ctor cfg level r loc w)) = level"
    by (cases "is_active cfg level")
      (simp_all add: SimpleLogger_ctor_active SimpleLogger_ctor_inactive)
  moreover have "fst (fold (operator_shl cfg) toks (this, w)) = this"
    by (simp add: fst_fold_operator_shl)
  ultimately show ?thesis
    by (simp add: is_active_def SimpleLogger_ctor_def operator_shl_def SimpleLogger_dtor_def)
qed

theorem activation_fixed_witness:
  "\<not> is_active (build_config True) Debug \<and> is_active (build_config True) Warning \<and>
   fst (fold (operator_shl (build_config True)) [Str ''a'', Num 1]
      (\<lparr>Level = Debug, m_stream = NullRef Debug\<rparr>,
       initial_world (build_config True) Map.empty allow_all 0)) =
     \<lparr>Level = Debug, m_stream = NullRef Debug\<rparr> \<and>
   snd (SimpleLogger_ctor (build_config True) Debug (CallerRef 0) call_site
      (initial_world (build_config True) Map.empty allow_all 0)) =
     initial_world (build_config True) Map.empty allow_all 0 \<and>
   operator_shl (build_config True) (Str ''a'')
      (\<lparr>Level = Debug, m_stream = NullRef Debug\<rparr>,
       initial_world (build_config True) Map.empty allow_all 0) =
     (\<lparr>Level = Debug, m_stream = NullRef Debug\<rparr>,
      initial_world (build_config True) Map.empty allow_all 0) \<and>
   SimpleLogger_dtor (build_config True)
      (\<lparr>Level = Debug, m_stream = NullRef Debug\<rparr>,
       initial_world (build_config True) Map.empty allow_all 0) =
     initial_world (build_config True) Map.empty allow_all 0"
proof -
  have i: "\<not> is_active (build_config True) Debug"
    by (simp add: is_active_def build_config_def Debug_def Info_def)
  have a: "is_active (build_config True) Warning"
    by (simp add: is_active_def build_config_def Warning_def Info_def)
  show ?thesis
    using i a activation_fixed [of "build_config True" Debug "CallerRef 0" call_site
      "initial_world (build_config True) Map.empty allow_all 0" "[Str ''a'', Num 1]"
      "\<lparr>Level = Debug, m_stream = NullRef Debug\<rparr>" "Str ''a''"]
    by (simp del: fold.simps)
qed

section \<open>The file name of the call site\<close>

text \<open>
  C8. \<^verbatim>\<open>print_file_name\<close> streams a text that depends on the path alone: its last
  component; a path without separator is streamed unchanged, \<open>/a/b/c.cpp\<close> gives
  \<open>c.cpp\<close>, \<open>c.cpp\<close> gives \<open>c.cpp\<close> and the empty path gives the empty text.
\<close>

theorem print_file_name_last_component:
  "print_file_name cfg path st = operator_shl cfg (Str (last_component path)) st \<and>
   (CHR ''/'' \<notin> set path \<longrightarrow> print_file_name cfg path st = operator_shl cfg (Str path) st) \<and>
   print_file_name cfg ''/a/b/c.cpp'' st = operator_shl cfg (Str ''c.cpp'') st \<and>
   print_file_name cfg ''c.cpp'' st = operator_shl cfg (Str ''c.cpp'') st \<and>
   print_file_name cfg '''' st = operator_shl cfg (Str '''') st"
  by (simp add: print_file_name_eq last_component_no_sep) (simp add: last_component_def)

theorem print_file_name_last_component_witness:
  "CHR ''/'' \<notin> set ''logger.h'' \<and>
   print_file_name (build_config False) ''logger.h''
     (\<lparr>Level = Info, m_stream = CallerRef 0\<rparr>,
      initial_world (build_config False) Map.empty allow_all 0) =
   operator_shl (build_config False) (Str ''logger.h'')
     (\<lparr>Level = Info, m_stream = CallerRef 0\<rparr>,
      initial_world (build_config False) Map.empty allow_all 0)"
  using print_file_name_last_component [of "build_config False" "''logger.h''"
      "(\<lparr>Level = Info, m_stream = CallerRef 0\<rparr>,
        initial_world (build_config False) Map.empty allow_all 0)"]
  by (simp add: last_component_def)

text \<open>
  C10. Only the forward slash separates: a path without forward slash, backslashes
  or not, is streamed unchanged, and a path with a forward slash is streamed from
  the character after its last forward slash.
\<close>

theorem only_forward_slash_separates:
  "(CHR ''/'' \<notin> set path \<longrightarrow> print_file_name cfg path st = operator_shl cfg (Str path) st) \<and>
   (CHR ''/'' \<in> set path \<longrightarrow>
      (\<exists>a b. path = a @ CHR ''/'' # b \<and> CHR ''/'' \<notin> set b \<and>
         print_file_name cfg path st = operator_shl cfg (Str b) st)) \<and>
   (CHR ''/'' \<notin> set b \<longrightarrow>
      print_file_name cfg (a @ CHR ''/'' # b) st = operator_shl cfg (Str b) st) \<and>
   print_file_name cfg [CHR ''a'', CHR 0x5C, CHR ''b'', CHR 0x5C, CHR ''c'', CHR ''.'', CHR ''h''] st =
     operator_shl cfg
       (Str [CHR ''a'', CHR 0x5C, CHR ''b'', CHR 0x5C, CHR ''c'', CHR ''.'', CHR ''h'']) st"
proof -
  have 1: "CHR ''/'' \<notin> set p \<Longrightarrow> print_file_name cfg p st = operator_shl cfg (Str p) st" for p
    by (simp add: print_file_name_eq last_component_no_sep)
  have 2: "CHR ''/'' \<notin> set y \<Longrightarrow>
      print_file_name cfg (x @ CHR ''/'' # y) st = operator_shl cfg (Str y) st" for x y
    by (simp add: print_file_name_eq last_component_sep)
  have 3: "\<exists>a b. path = a @ CHR ''/'' # b \<and> CHR ''/'' \<notin> set b \<and>
         print_file_name cfg path st = operator_shl cfg (Str b) st"
    if "CHR ''/'' \<in> set path"
  proof -
    from that obtain x y where "path = x @ CHR ''/'' # y" "CHR ''/'' \<notin> set y"
      using split_last_sep by blast
    then show ?thesis using 2 by blast
  qed
  have 4: "print_file_name cfg [CHR ''a'', CHR 0x5C, CHR ''b'', CHR 0x5C, CHR ''c'', CHR ''.'', CHR ''h''] st =
     operator_shl cfg
       (Str [CHR ''a'', CHR 0x5C, CHR ''b'', CHR 0x5C, CHR ''c'', CHR ''.'', CHR ''h'']) st"
    by (rule 1) simp
  from 1 2 3 4 show ?thesis by blast
qed

theorem only_forward_slash_separates_witness:
  "CHR ''/'' \<notin> set [CHR ''d'', CHR 0x5C, CHR ''e''] \<and>
   CHR ''/'' \<in> set ([CHR ''x'', CHR 0x5C, CHR ''y''] @ CHR ''/'' # [CHR ''d'', CHR 0x5C, CHR ''e'']) \<and>
   print_file_name (build_config False)
     ([CHR ''x'', CHR 0x5C, CHR ''y''] @ CHR ''/'' # [CHR ''d'', CHR 0x5C, CHR ''e''])
     (\<lparr>Level = Info, m_stream = CallerRef 0\<rparr>,
      initial_world (build_config False) Map.empty allow_all 0) =
   operator_shl (build_config False) (Str [CHR ''d'', CHR 0x5C, CHR ''e''])
     (\<lparr>Level = Info, m_stream = CallerRef 0\<rparr>,
      initial_world (build_config False) Map.empty allow_all 0) \<and>
   print_file_name (build_config False) [CHR ''d'', CHR 0x5C, CHR ''e'']
     (\<lparr>Level = Info, m_stream = CallerRef 0\<rparr>,
      initial_world (build_config False) Map.empty allow_all 0) =
   operator_shl (build_config False) (Str [CHR ''d'', CHR 0x5C, CHR ''e''])
     (\<lparr>Level = Info, m_stream = CallerRef 0\<rparr>,
      initial_world (build_config False) Map.empty allow_all 0)"
proof -
  have n: "CHR ''/'' \<notin> set [CHR ''d'', CHR 0x5C, CHR ''e'']" by simp
  note t = only_forward_slash_separates [of "[CHR ''d'', CHR 0x5C, CHR ''e'']"
      "build_config False" "(\<lparr>Level = Info, m_stream = CallerRef 0\<rparr>,
      initial_world (build_config False) Map.empty allow_all 0)"
      "[CHR ''d'', CHR 0x5C, CHR ''e'']" "[CHR ''x'', CHR 0x5C, CHR ''y'']"]
  from t n show ?thesis by simp
qed

section \<open>The stream of an inactive statement\<close>

text \<open>
  C9. For a statement below the threshold \<^verbatim>\<open>get_stream\<close> returns the
  \<^verbatim>\<open>null_stream\<close> of its level; that stream is not in good state, so whatever is
  written through it, tokens and \<^verbatim>\<open>std::endl\<close>, no stream receives a character, the
  stream the statement was constructed with included.
\<close>

theorem inactive_get_stream:
  assumes "\<not> is_active cfg level" and "\<not> os_good (streams w (NullRef level))"
  shows "case SimpleLogger_ctor cfg level r loc w of (this, w1) \<Rightarrow>
     get_stream this = NullRef level \<and> w1 = w \<and>
     os_out (streams (on_stream (get_stream this) (fold put_token toks) w1) q) =
       os_out (streams w q) \<and>
     os_out (streams (on_stream (get_stream this) (\<lambda>s. endl (fold put_token toks s)) w1) q) =
       os_out (streams w q)"
  using assms(2)
  by (simp add: SimpleLogger_ctor_inactive [OF assms(1)] get_stream_def on_stream_fields
      fold_put_token_bad_out endl_bad_out fold_put_token_good del: fold.simps)

theorem inactive_get_stream_witness:
  "\<not> is_active (build_config True) Debug \<and>
   \<not> os_good (streams (initial_world (build_config True) Map.empty allow_all 0) (NullRef Debug)) \<and>
   get_stream (fst (SimpleLogger_ctor (build_config True) Debug (CallerRef 0) call_site
       (initial_world (build_config True) Map.empty allow_all 0))) = NullRef Debug \<and>
   os_out (streams (on_stream
       (get_stream (fst (SimpleLogger_ctor (build_config True) Debug (CallerRef 0) call_site
          (initial_world (build_config True) Map.empty allow_all 0))))
       (\<lambda>s. endl (fold put_token [Str ''lost'', Num 3] s))
       (snd (SimpleLogger_ctor (build_config True) Debug (CallerRef 0) call_site
          (initial_world (build_config True) Map.empty allow_all 0)))) (CallerRef 0)) = []"
proof -
  have i: "\<not> is_active (build_config True) Debug"
    by (simp add: is_active_def build_config_def Debug_def Info_def)
  have b: "\<not> os_good (streams (initial_world (build_config True) Map.empty allow_all 0)
      (NullRef Debug))"
    by (simp add: initial_fields initial_streams_def null_ostream_def)
  have o: "os_out (streams (initial_world (build_config True) Map.empty allow_all 0)
      (CallerRef 0)) = []"
    by (simp add: initial_fields initial_streams_def fresh_stream_def)
  note t = inactive_get_stream [OF i b, where r = "CallerRef 0" and loc = call_site
          and toks = "[Str ''lost'', Num 3]" and q = "CallerRef 0", unfolded split_beta o]
  from i b t show ?thesis by blast
qed

end
